theory Spec2Isabelle
  imports Complex_Main "HOL-Library.Log_Nat"
begin

section \<open>The rolling gallery of \<^verbatim>\<open>script.js\<close>\<close>

text \<open>
  The class \<^verbatim>\<open>RollingGallery\<close> keeps a rotation angle and a flick velocity, and changes
  them in event handlers: pointer down, move and up, the autoplay interval, the animation
  frames of a flick and the timeout that ends the snap transition. The object is a record
  here, every handler a function from the record to an outcome, and the browser's timers
  and the one DOM element the handlers write to are fields of the same record.

  Numbers are reals: the development is about finite values, without \<^verbatim>\<open>NaN\<close> and the
  infinities. The product that decides whether a flick ends, the decay of the velocity
  in each frame, is rounded to the nearest double as the code's multiplication is; the
  other arithmetic is exact. Template
  strings that contain a number are structured values (\<open>RotateY r\<close> for
  \<^verbatim>\<open>rotateY(${r}deg)\<close>). Two things are left out: \<^verbatim>\<open>throttle\<close>, which only limits how
  often \<^verbatim>\<open>handleResize\<close> runs, and \<^verbatim>\<open>e.preventDefault()\<close>, which acts on the event and
  not on the gallery.
\<close>

subsection \<open>Numbers\<close>

text \<open>
  \<^verbatim>\<open>x % y\<close> on numbers: the remainder of the truncated division, with the sign of \<open>x\<close>.
\<close>

definition js_trunc :: "real \<Rightarrow> int" where
  "js_trunc q = (if 0 \<le> q then \<lfloor>q\<rfloor> else \<lceil>q\<rceil>)"

definition js_rem :: "real \<Rightarrow> real \<Rightarrow> real" where
  "js_rem x y = x - y * of_int (js_trunc (x / y))"

text \<open>\<^verbatim>\<open>Math.round\<close>: the nearest integer, a tie going to the larger one.\<close>

definition Math_round :: "real \<Rightarrow> int" where
  "Math_round x = \<lfloor>x + 1 / 2\<rfloor>"

text \<open>
  Rounding to binary64. The doubles are the multiples of \<open>ulp64 x\<close> near \<open>x\<close>: of
  \<open>2 powi (e - 52)\<close> where \<open>2 powi e \<le> \<bar>x\<bar> < 2 powi (e + 1)\<close>, and of the least subnormal
  \<open>2 powi (- 1074)\<close> below the least normal \<open>2 powi (- 1022)\<close>. \<open>fl64 x\<close> is the double
  nearest to \<open>x\<close>, the one with the even significand when two are equally near. Overflow
  to infinity is left out.
\<close>

definition min_subnormal :: real where
  "min_subnormal = 2 powi (- 1074)"

definition min_normal :: real where
  "min_normal = 2 powi (- 1022)"

definition round_even :: "real \<Rightarrow> int" where
  "round_even z =
     (let f = \<lfloor>z\<rfloor>; r = z - of_int f
      in if r < 1 / 2 then f
         else if 1 / 2 < r then f + 1
         else if even f then f else f + 1)"

definition exponent64 :: "real \<Rightarrow> int" where
  "exponent64 x =
     (if 1 \<le> \<bar>x\<bar> then bitlen \<lfloor>\<bar>x\<bar>\<rfloor> - 1 else - bitlen (\<lceil>1 / \<bar>x\<bar>\<rceil> - 1))"

definition ulp64 :: "real \<Rightarrow> real" where
  "ulp64 x = (if \<bar>x\<bar> < min_normal then min_subnormal else 2 powi (exponent64 x - 52))"

definition fl64 :: "real \<Rightarrow> real" where
  "fl64 x = of_int (round_even (x / ulp64 x)) * ulp64 x"

text \<open>
  Handles of timers and animation frames are positive integers; a field holding one is
  \<^verbatim>\<open>null\<close> or a number, and \<^verbatim>\<open>if (id)\<close> tests that it is neither \<^verbatim>\<open>null\<close> nor 0.
\<close>

definition truthy :: "nat option \<Rightarrow> bool" where
  "truthy h = (case h of None \<Rightarrow> False | Some n \<Rightarrow> n \<noteq> 0)"

subsection \<open>Options, events and the DOM\<close>

record gallery_options =
  options_images :: "string list"
  autoplay :: bool
  pauseOnHover :: bool
  smBreakpoint :: real
  autoplayIntervalMs :: real
  autoplayRotationDuration :: real
  dragFactor :: real
  flickDecay :: real
  flickMinVelocity :: real
  gapFactor :: real

text \<open>The defaults of the constructor; the caller's options are spread over them.\<close>

definition default_options :: gallery_options where
  "default_options =
     \<lparr>options_images = [], autoplay = False, pauseOnHover = False, smBreakpoint = 640,
      autoplayIntervalMs = 4000, autoplayRotationDuration = 3000, dragFactor = 5 / 100,
      flickDecay = 92 / 100, flickMinVelocity = 1 / 10, gapFactor = 95 / 100\<rparr>"

text \<open>The configuration of the README.\<close>

definition readme_options :: gallery_options where
  "readme_options =
     default_options\<lparr>options_images := [''image1.jpg'', ''image2.jpg''],
       autoplay := True, pauseOnHover := True, smBreakpoint := 640\<rparr>"

text \<open>
  What the handlers read of an event: \<^verbatim>\<open>e.button\<close>, \<^verbatim>\<open>e.clientX\<close>, \<^verbatim>\<open>e.pointerId\<close> and
  \<^verbatim>\<open>e.touches\<close>, which a pointer event does not have (\<open>None\<close>); where an event has it,
  it is the list of the touches' \<^verbatim>\<open>clientX\<close>.
\<close>

record pointer_event =
  button :: int
  clientX :: real
  touches :: "real list option"
  pointerId :: nat

datatype js_error = TypeError

text \<open>
  \<^verbatim>\<open>e.clientX || e.touches[0].clientX\<close>: a \<^verbatim>\<open>clientX\<close> of 0 is falsy, so the right operand
  is evaluated, and it throws where \<^verbatim>\<open>e.touches\<close> is undefined or empty.
\<close>

definition eventX :: "pointer_event \<Rightarrow> js_error + real" where
  "eventX e =
     (if clientX e \<noteq> 0 then Inr (clientX e)
      else case touches e of
             None \<Rightarrow> Inl TypeError
           | Some [] \<Rightarrow> Inl TypeError
           | Some (t # _) \<Rightarrow> Inr t)"

datatype css_transition =
  TransitionUnset | TransitionNone | TransformLinear real | TransformEaseOut

datatype css_transform = TransformUnset | RotateY real

text \<open>
  \<open>Radius a n\<close> is the length \<^verbatim>\<open>a / Math.tan(Math.PI / n)\<close> of an item's \<^verbatim>\<open>translateZ\<close>,
  kept as the expression: its value is a matter of double-precision trigonometry.
\<close>

datatype layout_radius = Radius real nat

record gallery_item =
  img_src :: string
  img_alt :: nat
  item_angle :: real
  item_radius :: layout_radius
  item_scale :: real

record track_element =
  style_transition :: css_transition
  style_cursor :: string
  style_transform :: css_transform
  style_width :: "real option"
  track_items :: "gallery_item list"
  pointerCapture :: "nat option"

definition new_track :: track_element where
  "new_track =
     \<lparr>style_transition = TransitionUnset, style_cursor = [], style_transform = TransformUnset,
      style_width = None, track_items = [], pointerCapture = None\<rparr>"

subsection \<open>The gallery object and the browser around it\<close>

text \<open>
  The fields of \<^verbatim>\<open>this\<close> come first, under their names (\<open>galleryTrack\<close> is
  \<^verbatim>\<open>this.elements.galleryTrack\<close>, \<open>None\<close> for \<^verbatim>\<open>null\<close>). The rest is the browser:
  whether the container holds the base structure, whether the hover listeners are
  attached, the active intervals and pending timeouts with their periods, the pending
  animation frames, the last handle issued, and the console.
\<close>

record gallery =
  options :: gallery_options
  images :: "string list"
  isScreenSizeSm :: bool
  rotationDegrees :: real
  autoplayIntervalId :: "nat option"
  animationFrameId :: "nat option"
  isDragging :: bool
  startX :: real
  startRotation :: real
  lastMoveX :: real
  lastMoveTime :: real
  currentVelocity :: real
  galleryTrack :: "track_element option"
  baseStructure :: bool
  hoverListeners :: bool
  intervals :: "(nat \<times> real) list"
  timeouts :: "(nat \<times> real) list"
  frames :: "nat list"
  handles :: nat
  console :: "string list"

text \<open>
  A handler ends normally or throws; what it wrote to the object before throwing stays
  written, so both outcomes carry the state.
\<close>

datatype outcome = Done gallery | Threw js_error gallery

definition after :: "outcome \<Rightarrow> gallery" where
  "after r = (case r of Done g \<Rightarrow> g | Threw _ g \<Rightarrow> g)"

definition andThen :: "outcome \<Rightarrow> (gallery \<Rightarrow> outcome) \<Rightarrow> outcome" where
  "andThen r f = (case r of Done g \<Rightarrow> f g | Threw e g \<Rightarrow> Threw e g)"

text \<open>
  Writing to the style of the track: \<^verbatim>\<open>this.elements.galleryTrack.style.p = v\<close> throws
  when the element is \<^verbatim>\<open>null\<close>.
\<close>

definition onTrack :: "(track_element \<Rightarrow> track_element) \<Rightarrow> gallery \<Rightarrow> outcome" where
  "onTrack f g =
     (case galleryTrack g of
        None \<Rightarrow> Threw TypeError g
      | Some t \<Rightarrow> Done (g\<lparr>galleryTrack := Some (f t)\<rparr>))"

subsubsection \<open>Timers and animation frames\<close>

definition setInterval :: "real \<Rightarrow> gallery \<Rightarrow> nat \<times> gallery" where
  "setInterval ms g =
     (let h = Suc (handles g)
      in (h, g\<lparr>handles := h, intervals := intervals g @ [(h, ms)]\<rparr>))"

definition clearInterval :: "nat \<Rightarrow> gallery \<Rightarrow> gallery" where
  "clearInterval h g = g\<lparr>intervals := filter (\<lambda>p. fst p \<noteq> h) (intervals g)\<rparr>"

definition setTimeout :: "real \<Rightarrow> gallery \<Rightarrow> nat \<times> gallery" where
  "setTimeout ms g =
     (let h = Suc (handles g)
      in (h, g\<lparr>handles := h, timeouts := timeouts g @ [(h, ms)]\<rparr>))"

definition requestAnimationFrame :: "gallery \<Rightarrow> nat \<times> gallery" where
  "requestAnimationFrame g =
     (let h = Suc (handles g)
      in (h, g\<lparr>handles := h, frames := frames g @ [h]\<rparr>))"

definition cancelAnimationFrame :: "nat \<Rightarrow> gallery \<Rightarrow> gallery" where
  "cancelAnimationFrame h g = g\<lparr>frames := removeAll h (frames g)\<rparr>"

subsection \<open>Rendering and the transform\<close>

text \<open>
  \<^verbatim>\<open>renderBaseStructure\<close> writes the container's markup, which holds the track;
  \<^verbatim>\<open>getElements\<close> looks the track up in the container, and finds \<^verbatim>\<open>null\<close> where the
  markup is not there.
\<close>

definition renderBaseStructure :: "gallery \<Rightarrow> gallery" where
  "renderBaseStructure g = g\<lparr>baseStructure := True\<rparr>"

definition getElements :: "gallery \<Rightarrow> gallery" where
  "getElements g =
     g\<lparr>galleryTrack := (if baseStructure g then Some new_track else None)\<rparr>"

definition updateTransform :: "gallery \<Rightarrow> gallery" where
  "updateTransform g =
     (case galleryTrack g of
        None \<Rightarrow> g
      | Some t \<Rightarrow>
          g\<lparr>galleryTrack := Some (t\<lparr>style_transform := RotateY (rotationDegrees g)\<rparr>)\<rparr>)"

definition renderGalleryItems :: "gallery \<Rightarrow> outcome" where
  "renderGalleryItems g =
     (let faceWidth = (if isScreenSizeSm g then 150 else 350);
          radius = Radius (faceWidth / 2) (length (images g));
          item = (\<lambda>(index, imageUrl).
            \<lparr>img_src = imageUrl, img_alt = index + 1,
             item_angle = (360 / real (length (images g))) * real index,
             item_radius = radius, item_scale = gapFactor (options g)\<rparr>)
      in onTrack (\<lambda>t. t\<lparr>style_width := Some faceWidth,
                          track_items := map item (enumerate 0 (images g))\<rparr>) g)"

subsection \<open>Autoplay\<close>

definition autoplayTick :: "gallery \<Rightarrow> gallery" where
  "autoplayTick g =
     (let rotationPerFace = 360 / real (length (images g))
      in updateTransform (g\<lparr>rotationDegrees := rotationDegrees g - rotationPerFace\<rparr>))"

definition startAutoplay :: "gallery \<Rightarrow> outcome" where
  "startAutoplay g =
     (if truthy (autoplayIntervalId g) then Done g
      else andThen
        (onTrack (\<lambda>t. t\<lparr>style_transition :=
            TransformLinear (autoplayRotationDuration (options g) / 1000)\<rparr>) g)
        (\<lambda>g1. let (h, g2) = setInterval (autoplayIntervalMs (options g1)) g1
              in Done (g2\<lparr>autoplayIntervalId := Some h\<rparr>)))"

definition stopAutoplay :: "gallery \<Rightarrow> gallery" where
  "stopAutoplay g =
     (if truthy (autoplayIntervalId g)
      then (clearInterval (the (autoplayIntervalId g)) g)\<lparr>autoplayIntervalId := None\<rparr>
      else g)"

definition handleMouseEnter :: "gallery \<Rightarrow> outcome" where
  "handleMouseEnter g =
     (if pauseOnHover (options g) then Done (stopAutoplay g) else Done g)"

definition handleMouseLeave :: "gallery \<Rightarrow> outcome" where
  "handleMouseLeave g =
     (if pauseOnHover (options g) \<and> autoplay (options g) then startAutoplay g else Done g)"

subsection \<open>Snapping and the flick animation\<close>

text \<open>The local \<^verbatim>\<open>targetRotation\<close> of \<^verbatim>\<open>snapToNearestFace\<close>, for \<open>n\<close> images.\<close>

definition targetRotation :: "real \<Rightarrow> nat \<Rightarrow> real" where
  "targetRotation rotation n =
     (let rotationPerFace = 360 / real n;
          normalizedRotation = js_rem rotation 360;
          nearestFaceIndex = Math_round (normalizedRotation / rotationPerFace)
      in of_int nearestFaceIndex * rotationPerFace)"

definition snapToNearestFace :: "gallery \<Rightarrow> outcome" where
  "snapToNearestFace g =
     (let target = targetRotation (rotationDegrees g) (length (images g))
      in andThen (onTrack (\<lambda>t. t\<lparr>style_transition := TransformEaseOut\<rparr>) g)
           (\<lambda>g1. let g2 = updateTransform (g1\<lparr>rotationDegrees := target\<rparr>)
                 in Done (snd (setTimeout 300 g2))))"

text \<open>The callback of the timeout that \<^verbatim>\<open>snapToNearestFace\<close> sets.\<close>

definition snapTimeout :: "gallery \<Rightarrow> outcome" where
  "snapTimeout g =
     (if \<not> isDragging g \<and> \<not> truthy (autoplayIntervalId g)
      then onTrack (\<lambda>t. t\<lparr>style_transition := TransitionNone\<rparr>) g
      else Done g)"

definition cancelFlickAnimation :: "gallery \<Rightarrow> gallery" where
  "cancelFlickAnimation g =
     (if truthy (animationFrameId g)
      then (cancelAnimationFrame (the (animationFrameId g)) g)\<lparr>animationFrameId := None\<rparr>
      else g)"

text \<open>
  One frame: the closure \<^verbatim>\<open>animate\<close> of \<^verbatim>\<open>startFlickAnimation\<close>. The velocity it
  stores is the double that \<^verbatim>\<open>this.currentVelocity *= this.options.flickDecay\<close> yields.
\<close>

definition animate :: "gallery \<Rightarrow> outcome" where
  "animate g =
     (let g1 = updateTransform (g\<lparr>rotationDegrees := rotationDegrees g + currentVelocity g\<rparr>);
          g2 = g1\<lparr>currentVelocity := fl64 (currentVelocity g1 * flickDecay (options g1))\<rparr>
      in if \<bar>currentVelocity g2\<bar> > flickMinVelocity (options g2)
         then (let (h, g3) = requestAnimationFrame g2
               in Done (g3\<lparr>animationFrameId := Some h\<rparr>))
         else andThen (snapToNearestFace g2)
                (\<lambda>g3. if autoplay (options g3) then startAutoplay g3 else Done g3))"

definition startFlickAnimation :: "gallery \<Rightarrow> gallery" where
  "startFlickAnimation g =
     (let (h, g1) = requestAnimationFrame (cancelFlickAnimation g)
      in g1\<lparr>animationFrameId := Some h\<rparr>)"

subsection \<open>Pointer handlers\<close>

text \<open>\<open>now\<close> is the value of \<^verbatim>\<open>performance.now()\<close> when the handler runs.\<close>

definition handlePointerDown :: "pointer_event \<Rightarrow> real \<Rightarrow> gallery \<Rightarrow> outcome" where
  "handlePointerDown e now g =
     (if button e \<noteq> 0 \<and> touches e = None then Done g
      else
        let g1 = g\<lparr>isDragging := True\<rparr>
        in case eventX e of
             Inl err \<Rightarrow> Threw err g1
           | Inr x \<Rightarrow>
               let g2 = g1\<lparr>startX := x, lastMoveX := x, lastMoveTime := now,
                          startRotation := rotationDegrees g1, currentVelocity := 0\<rparr>;
                   g3 = cancelFlickAnimation (stopAutoplay g2)
               in onTrack (\<lambda>t. t\<lparr>style_transition := TransitionNone,
                                  style_cursor := ''grabbing'',
                                  pointerCapture := Some (pointerId e)\<rparr>) g3)"

definition handlePointerMove :: "pointer_event \<Rightarrow> real \<Rightarrow> gallery \<Rightarrow> outcome" where
  "handlePointerMove e now g =
     (if \<not> isDragging g then Done g
      else case eventX e of
             Inl err \<Rightarrow> Threw err g
           | Inr currentX \<Rightarrow>
               let currentTime = now;
                   deltaX = currentX - startX g;
                   g1 = g\<lparr>rotationDegrees := startRotation g + deltaX * dragFactor (options g)\<rparr>;
                   g2 = (if currentTime - lastMoveTime g1 > 0
                         then g1\<lparr>currentVelocity :=
                                (currentX - lastMoveX g1) / (currentTime - lastMoveTime g1)
                                  * 1000 * dragFactor (options g1)\<rparr>
                         else g1);
                   g3 = g2\<lparr>lastMoveX := currentX, lastMoveTime := currentTime\<rparr>
               in Done (updateTransform g3))"

definition handlePointerUp :: "pointer_event \<Rightarrow> gallery \<Rightarrow> outcome" where
  "handlePointerUp e g =
     (if \<not> isDragging g then Done g
      else andThen
        (onTrack (\<lambda>t. t\<lparr>style_cursor := ''grab'',
                        pointerCapture := (if pointerCapture t = Some (pointerId e) then None
                                           else pointerCapture t)\<rparr>)
           (g\<lparr>isDragging := False\<rparr>))
        (\<lambda>g1. if \<bar>currentVelocity g1\<bar> > flickMinVelocity (options g1)
              then Done (startFlickAnimation g1)
              else andThen (snapToNearestFace g1)
                     (\<lambda>g2. if autoplay (options g2) then startAutoplay g2 else Done g2)))"

text \<open>\<open>innerWidth\<close> is \<^verbatim>\<open>window.innerWidth\<close> when the handler runs.\<close>

definition handleResize :: "real \<Rightarrow> gallery \<Rightarrow> outcome" where
  "handleResize innerWidth g =
     (let newIsScreenSizeSm = (innerWidth \<le> smBreakpoint (options g))
      in if isScreenSizeSm g \<noteq> newIsScreenSizeSm
         then andThen (renderGalleryItems (g\<lparr>isScreenSizeSm := newIsScreenSizeSm\<rparr>))
                (\<lambda>g1. Done (updateTransform g1))
         else Done g)"

subsection \<open>Construction\<close>

definition attachEventListeners :: "gallery \<Rightarrow> outcome" where
  "attachEventListeners g =
     (case galleryTrack g of
        None \<Rightarrow> Threw TypeError g
      | Some _ \<Rightarrow>
          Done (g\<lparr>hoverListeners := (autoplay (options g) \<and> pauseOnHover (options g))\<rparr>))"

definition init :: "gallery \<Rightarrow> outcome" where
  "init g =
     andThen (attachEventListeners (getElements (renderBaseStructure g)))
       (\<lambda>g1. andThen (renderGalleryItems g1)
          (\<lambda>g2. let g3 = updateTransform g2
                in if autoplay (options g3) then startAutoplay g3 else Done g3))"

definition no_images_warning :: string where
  "no_images_warning =
     ''RollingGallery: No images provided. Please provide an array of image URLs.''"

definition placeholder_image :: string where
  "placeholder_image = ''https://via.placeholder.com/300x120?text=No+Images''"

text \<open>
  \<open>opts\<close> is \<^verbatim>\<open>this.options\<close>, the defaults with the caller's options spread over them;
  \<open>innerWidth\<close> is \<^verbatim>\<open>window.innerWidth\<close> at construction.
\<close>

definition constructor :: "real \<Rightarrow> gallery_options \<Rightarrow> outcome" where
  "constructor innerWidth opts =
     (let empty = (length (options_images opts) = 0)
      in init
          \<lparr>options = opts,
           images = (if empty then [placeholder_image] else options_images opts),
           isScreenSizeSm = (innerWidth \<le> smBreakpoint opts),
           rotationDegrees = 0,
           autoplayIntervalId = None,
           animationFrameId = None,
           isDragging = False,
           startX = 0,
           startRotation = 0,
           lastMoveX = 0,
           lastMoveTime = 0,
           currentVelocity = 0,
           galleryTrack = None,
           baseStructure = False,
           hoverListeners = False,
           intervals = [],
           timeouts = [],
           frames = [],
           handles = 0,
           console = (if empty then [no_images_warning] else [])\<rparr>)"

subsection \<open>The event loop\<close>

text \<open>
  What the browser may run next: a listener on an event, the callback of an active
  interval, of a pending animation frame or of a pending timeout. A frame or a timeout
  leaves the pending ones when its callback starts. The hover listeners exist only where
  \<^verbatim>\<open>attachEventListeners\<close> attached them.
\<close>

datatype event =
    PointerDown pointer_event real
  | PointerMove pointer_event real
  | PointerUp pointer_event
  | PointerCancel pointer_event
  | MouseEnter
  | MouseLeave
  | Resize real
  | IntervalTick nat
  | AnimationFrame nat
  | Timeout nat

definition dispatch :: "event \<Rightarrow> gallery \<Rightarrow> outcome" where
  "dispatch ev g =
     (case ev of
        PointerDown e now \<Rightarrow> handlePointerDown e now g
      | PointerMove e now \<Rightarrow> handlePointerMove e now g
      | PointerUp e \<Rightarrow> handlePointerUp e g
      | PointerCancel e \<Rightarrow> handlePointerUp e g
      | MouseEnter \<Rightarrow> (if hoverListeners g then handleMouseEnter g else Done g)
      | MouseLeave \<Rightarrow> (if hoverListeners g then handleMouseLeave g else Done g)
      | Resize innerWidth \<Rightarrow> handleResize innerWidth g
      | IntervalTick h \<Rightarrow>
          (if h \<in> fst ` set (intervals g) then Done (autoplayTick g) else Done g)
      | AnimationFrame h \<Rightarrow>
          (if h \<in> set (frames g) then animate (g\<lparr>frames := removeAll h (frames g)\<rparr>)
           else Done g)
      | Timeout h \<Rightarrow>
          (if h \<in> fst ` set (timeouts g)
           then snapTimeout (g\<lparr>timeouts := filter (\<lambda>p. fst p \<noteq> h) (timeouts g)\<rparr>)
           else Done g))"

fun run :: "event list \<Rightarrow> gallery \<Rightarrow> gallery" where
  "run [] g = g"
| "run (ev # evs) g = run evs (after (dispatch ev g))"

inductive reachable :: "gallery \<Rightarrow> bool" where
  constructed: "constructor innerWidth opts = Done g \<Longrightarrow> reachable g"
| dispatched: "reachable g \<Longrightarrow> reachable (after (dispatch ev g))"



subsection \<open>Notions of the specification\<close>

text \<open>
  \<open>y\<close> is a multiple of \<open>step\<close> nearest to \<open>x\<close>: no integer multiple of \<open>step\<close> is
  nearer to \<open>x\<close> than \<open>y\<close> is.
\<close>

definition nearest_multiple :: "real \<Rightarrow> real \<Rightarrow> real \<Rightarrow> bool" where
  "nearest_multiple step x y \<longleftrightarrow>
     (\<exists>k::int. y = of_int k * step) \<and> (\<forall>j::int. \<bar>x - y\<bar> \<le> \<bar>x - of_int j * step\<bar>)"

text \<open>
  \<open>y\<close> is the multiple of \<open>step\<close> nearest to \<open>x\<close>, and the larger one where two are
  equally near: it lies at most half a step above \<open>x\<close> and less than half a step below.
\<close>

definition nearest_multiple_up :: "real \<Rightarrow> real \<Rightarrow> real \<Rightarrow> bool" where
  "nearest_multiple_up step x y \<longleftrightarrow>
     (\<exists>k::int. y = of_int k * step) \<and> x - step / 2 < y \<and> y \<le> x + step / 2"



text \<open>The transform shown is the one of the rotation held.\<close>

definition synced :: "gallery \<Rightarrow> bool" where
  "synced g =
     (case galleryTrack g of
        None \<Rightarrow> True
      | Some t \<Rightarrow> style_transform t = RotateY (rotationDegrees g))"

text \<open>
  The browser holds exactly the autoplay interval the object knows of, if any, with the
  period of the options.
\<close>

definition one_interval :: "gallery \<Rightarrow> bool" where
  "one_interval g =
     (case autoplayIntervalId g of
        None \<Rightarrow> intervals g = []
      | Some h \<Rightarrow> h \<noteq> 0 \<and> intervals g = [(h, autoplayIntervalMs (options g))])"


text \<open>
  Two galleries that differ at most in the image list the caller passed and in the
  console.
\<close>

definition withInput :: "string list \<Rightarrow> string list \<Rightarrow> gallery \<Rightarrow> gallery" where
  "withInput imgs out g = g\<lparr>options := (options g)\<lparr>options_images := imgs\<rparr>, console := out\<rparr>"

subsection \<open>Example runs\<close>

text \<open>A pointer event of the primary button at horizontal position \<open>x\<close>.\<close>

definition example_event :: "real \<Rightarrow> pointer_event" where
  "example_event x = \<lparr>button = 0, clientX = x, touches = None, pointerId = 1\<rparr>"

text \<open>The gallery of the README in a window 1024 pixels wide.\<close>

definition readme_gallery :: gallery where
  "readme_gallery = after (constructor 1024 readme_options)"


text \<open>The pointer goes down at 100 and moves to 110 within 16 milliseconds.\<close>

definition dragging_gallery :: gallery where
  "dragging_gallery =
     run [PointerDown (example_event 100) 0, PointerMove (example_event 110) 16] readme_gallery"

text \<open>
  A slow drag, released: the pointer goes down at 100, reaches 103 after 1472
  milliseconds and goes up, which starts a flick whose first frame is its last.
\<close>

definition flicking_gallery :: gallery where
  "flicking_gallery =
     run [PointerDown (example_event 100) 0, PointerMove (example_event 103) 1472,
          PointerUp (example_event 103)] readme_gallery"




section \<open>Properties\<close>

subsection \<open>Rounding to a multiple\<close>

lemma Math_round_eq_round: "Math_round x = round x"
  by (simp add: Math_round_def round_def)

lemma abs_diff_scaled:
  fixes s x :: real and k :: int
  assumes "0 < s"
  shows "\<bar>x - of_int k * s\<bar> = s * \<bar>x / s - of_int k\<bar>"
proof -
  have "x - of_int k * s = s * (x / s - of_int k)"
    using assms by (simp add: field_simps)
  then show ?thesis
    using assms by (simp add: abs_mult)
qed

lemma nearest_multiple_round:
  assumes "0 < s"
  shows "nearest_multiple s x (of_int (Math_round (x / s)) * s)"
proof -
  have "\<bar>x - of_int (Math_round (x / s)) * s\<bar> \<le> \<bar>x - of_int j * s\<bar>" for j :: int
  proof -
    have "\<bar>x / s - of_int (round (x / s))\<bar> \<le> \<bar>x / s - of_int j\<bar>"
      by (rule round_diff_minimal)
    then have "s * \<bar>x / s - of_int (round (x / s))\<bar> \<le> s * \<bar>x / s - of_int j\<bar>"
      using assms by (simp add: mult_left_mono)
    then show ?thesis
      using assms by (simp add: abs_diff_scaled Math_round_eq_round)
  qed
  then show ?thesis
    unfolding nearest_multiple_def by blast
qed






lemma targetRotation_example:
  "targetRotation (- 900) (Suc (Suc 0)) = - 180"
  "targetRotation (927 / 3680) (Suc (Suc 0)) = 0"
  by (simp_all add: targetRotation_def js_rem_def js_trunc_def Math_round_def Let_def)

lemma js_rem_example: "js_rem (- 900) 360 = - 180"
  by (simp add: js_rem_def js_trunc_def)

lemma nearest_multiple_up_round:
  assumes "0 < s"
  shows "nearest_multiple_up s x (of_int (Math_round (x / s)) * s)"
proof -
  have "x / s - 1 / 2 < of_int (Math_round (x / s))"
    and "of_int (Math_round (x / s)) \<le> x / s + 1 / 2"
    by (simp_all add: Math_round_eq_round of_int_round_gt of_int_round_le)
  then have "(x / s - 1 / 2) * s < of_int (Math_round (x / s)) * s"
    and "of_int (Math_round (x / s)) * s \<le> (x / s + 1 / 2) * s"
    using assms by (simp_all add: mult_right_mono)
  moreover have "(x / s - 1 / 2) * s = x - s / 2" and "(x / s + 1 / 2) * s = x + s / 2"
    using assms by (simp_all add: field_simps)
  ultimately have "x - s / 2 < of_int (Math_round (x / s)) * s"
    and "of_int (Math_round (x / s)) * s \<le> x + s / 2"
    by (simp_all only:)
  then show ?thesis
    unfolding nearest_multiple_up_def by blast
qed

text \<open>The larger-on-a-tie rule leaves one value, and that value is a nearest multiple.\<close>

lemma nearest_multiple_up_unique:
  assumes "0 < s" and "nearest_multiple_up s x y" and "nearest_multiple_up s x y'"
  shows "y = y'"
proof -
  from assms(2,3) obtain k k' :: int where k: "y = of_int k * s" "y' = of_int k' * s"
    unfolding nearest_multiple_up_def by blast
  from assms(2,3) have "y - y' < s" "y' - y < s"
    unfolding nearest_multiple_up_def by linarith+
  then have "of_int (k - k') * s < 1 * s" "of_int (k' - k) * s < 1 * s"
    by (simp_all add: k algebra_simps)
  then have "real_of_int (k - k') < 1" "real_of_int (k' - k) < 1"
    using assms(1) by (simp_all only: mult_less_cancel_right_pos)
  then have "k = k'"
    by linarith
  then show ?thesis
    by (simp add: k)
qed

lemma nearest_multiple_up_nearest:
  assumes "0 < s" and "nearest_multiple_up s x y"
  shows "nearest_multiple s x y"
proof -
  have "nearest_multiple_up s x (of_int (Math_round (x / s)) * s)"
    using assms(1) by (rule nearest_multiple_up_round)
  then have "y = of_int (Math_round (x / s)) * s"
    by (rule nearest_multiple_up_unique [OF assms(1) assms(2)])
  then show ?thesis
    using nearest_multiple_round [OF assms(1)] by simp
qed




subsection \<open>Rounding to a double\<close>





lemma exponent64_upper:
  assumes "x \<noteq> 0"
  shows "\<bar>x\<bar> < 2 powi (exponent64 x + 1)"
proof (cases "1 \<le> \<bar>x\<bar>")
  case True
  then have pos: "0 < \<lfloor>\<bar>x\<bar>\<rfloor>"
    by linarith
  from bitlen_bounds [OF pos] have "\<lfloor>\<bar>x\<bar>\<rfloor> + 1 \<le> 2 ^ nat (bitlen \<lfloor>\<bar>x\<bar>\<rfloor>)"
    by simp
  then have "of_int (\<lfloor>\<bar>x\<bar>\<rfloor> + 1) \<le> (2::real) ^ nat (bitlen \<lfloor>\<bar>x\<bar>\<rfloor>)"
    by (metis of_int_le_iff of_int_numeral of_int_power)
  moreover have "\<bar>x\<bar> < of_int (\<lfloor>\<bar>x\<bar>\<rfloor> + 1)"
    by linarith
  ultimately have "\<bar>x\<bar> < 2 ^ nat (bitlen \<lfloor>\<bar>x\<bar>\<rfloor>)"
    by linarith
  moreover have "0 \<le> bitlen \<lfloor>\<bar>x\<bar>\<rfloor>"
    by (rule bitlen_nonneg)
  ultimately show ?thesis
    using True by (simp add: exponent64_def power_int_def)
next
  case False
  let ?N = "\<lceil>1 / \<bar>x\<bar>\<rceil>"
  let ?k = "bitlen (?N - 1)"
  have x: "0 < \<bar>x\<bar>" "\<bar>x\<bar> < 1"
    using assms False by simp_all
  then have "1 < 1 / \<bar>x\<bar>"
    by simp
  then have pos: "0 < ?N - 1"
    by linarith
  have k1: "1 \<le> ?k"
    using pos by (auto simp: bitlen_alt_def)
  from bitlen_bounds [OF pos] have "2 ^ nat (?k - 1) \<le> ?N - 1"
    by simp
  then have "(2::real) ^ nat (?k - 1) \<le> of_int (?N - 1)"
    by (metis of_int_le_iff of_int_numeral of_int_power)
  moreover have "of_int (?N - 1) < 1 / \<bar>x\<bar>"
    by linarith
  ultimately have "2 ^ nat (?k - 1) < 1 / \<bar>x\<bar>"
    by linarith
  then have "\<bar>x\<bar> < 1 / 2 ^ nat (?k - 1)"
    using x(1) by (simp add: field_simps)
  moreover have "(2::real) powi (- ?k + 1) = 1 / 2 ^ nat (?k - 1)"
    using k1 by (simp add: power_int_def field_simps)
  ultimately show ?thesis
    using False by (simp add: exponent64_def)
qed







lemma fl64_example:
  "fl64 (115 / 4) = 115 / 4"
  "fl64 (3 / 32) = 3 / 32"
  by (simp_all add: fl64_def ulp64_def exponent64_def min_normal_def round_even_def
      compute_bitlen Let_def)




subsection \<open>What every handler keeps\<close>

lemmas timer_defs = setInterval_def clearInterval_def setTimeout_def
  requestAnimationFrame_def cancelAnimationFrame_def

lemmas handler_defs = handlePointerDown_def handlePointerMove_def handlePointerUp_def
  handleMouseEnter_def handleMouseLeave_def handleResize_def autoplayTick_def animate_def
  snapTimeout_def snapToNearestFace_def startAutoplay_def stopAutoplay_def
  startFlickAnimation_def cancelFlickAnimation_def renderGalleryItems_def updateTransform_def
  onTrack_def andThen_def after_def

lemmas constructor_defs = constructor_def init_def attachEventListeners_def getElements_def
  renderBaseStructure_def

lemmas example_defs = example_event_def readme_gallery_def readme_options_def default_options_def
  new_track_def eventX_def truthy_def

lemmas run_defs = example_defs constructor_defs dispatch_def handler_defs timer_defs Let_def

lemma images_dispatch: "images (after (dispatch ev g)) = images g"
  by (cases ev) (auto simp: dispatch_def handler_defs timer_defs Let_def
      split: option.splits sum.splits prod.splits if_splits)

lemma track_dispatch: "galleryTrack g \<noteq> None \<Longrightarrow> galleryTrack (after (dispatch ev g)) \<noteq> None"
  by (cases ev) (auto simp: dispatch_def handler_defs timer_defs Let_def
      split: option.splits sum.splits prod.splits if_splits)

lemma synced_dispatch: "synced g \<Longrightarrow> synced (after (dispatch ev g))"
  by (cases ev) (auto simp: synced_def dispatch_def handler_defs timer_defs Let_def
      split: option.splits sum.splits prod.splits if_splits)

lemma one_interval_dispatch: "one_interval g \<Longrightarrow> one_interval (after (dispatch ev g))"
  by (cases ev) (auto simp: one_interval_def truthy_def dispatch_def handler_defs timer_defs Let_def
      split: option.splits sum.splits prod.splits if_splits)


lemma constructor_Done: "\<exists>g. constructor w opts = Done g"
  by (auto simp: constructor_defs handler_defs timer_defs truthy_def Let_def
      split: option.splits sum.splits prod.splits if_splits)

lemma constructor_images:
  "constructor w opts = Done g \<Longrightarrow>
     images g = (if options_images opts = [] then [placeholder_image] else options_images opts)"
  by (auto simp: constructor_defs handler_defs timer_defs truthy_def Let_def
      split: option.splits sum.splits prod.splits if_splits)

lemma constructor_track: "constructor w opts = Done g \<Longrightarrow> galleryTrack g \<noteq> None"
  by (auto simp: constructor_defs handler_defs timer_defs truthy_def Let_def
      split: option.splits sum.splits prod.splits if_splits)

lemma constructor_synced: "constructor w opts = Done g \<Longrightarrow> synced g"
  by (auto simp: synced_def constructor_defs handler_defs timer_defs truthy_def Let_def
      split: option.splits sum.splits prod.splits if_splits)

lemma constructor_one_interval: "constructor w opts = Done g \<Longrightarrow> one_interval g"
  by (auto simp: one_interval_def constructor_defs handler_defs timer_defs truthy_def Let_def
      split: option.splits sum.splits prod.splits if_splits)


subsection \<open>Reachable states\<close>


lemma reachable_after_constructor: "reachable (after (constructor w opts))"
proof -
  obtain g where "constructor w opts = Done g"
    using constructor_Done by blast
  then show ?thesis
    by (simp add: after_def reachable.constructed)
qed

lemma reachable_images: "reachable g \<Longrightarrow> images g \<noteq> []"
proof (induction rule: reachable.induct)
  case (constructed innerWidth opts g)
  then show ?case
    by (auto dest: constructor_images split: if_splits)
next
  case (dispatched g ev)
  then show ?case
    by (simp add: images_dispatch)
qed

lemma reachable_track: "reachable g \<Longrightarrow> galleryTrack g \<noteq> None"
proof (induction rule: reachable.induct)
  case (constructed innerWidth opts g)
  then show ?case
    by (rule constructor_track)
next
  case (dispatched g ev)
  from dispatched.IH show ?case
    by (rule track_dispatch)
qed

lemma reachable_synced: "reachable g \<Longrightarrow> synced g"
  by (induction rule: reachable.induct) (auto dest: constructor_synced synced_dispatch)

lemma reachable_one_interval: "reachable g \<Longrightarrow> one_interval g"
  by (induction rule: reachable.induct) (auto dest: constructor_one_interval one_interval_dispatch)


subsection \<open>The example runs, evaluated\<close>

lemma readme_options_fields:
  "flickDecay readme_options = 92 / 100"
  "flickMinVelocity readme_options = 1 / 10"
  "dragFactor readme_options = 5 / 100"
  "autoplayIntervalMs readme_options = 4000"
  "autoplay readme_options"
  by (simp_all add: readme_options_def default_options_def)

lemma readme_gallery_fields:
  "\<not> isDragging readme_gallery"
  "autoplayIntervalId readme_gallery = Some 1"
  "intervals readme_gallery = [(1, 4000)]"
  "frames readme_gallery = []"
  "images readme_gallery = [''image1.jpg'', ''image2.jpg'']"
  "options readme_gallery = readme_options"
  "rotationDegrees readme_gallery = 0"
  "galleryTrack readme_gallery \<noteq> None"
  by (simp_all add: example_defs constructor_defs handler_defs timer_defs Let_def)


lemma dragging_gallery_fields:
  "rotationDegrees dragging_gallery = 1 / 2"
  "isDragging dragging_gallery"
  "currentVelocity dragging_gallery = 125 / 4"
  "galleryTrack dragging_gallery \<noteq> None"
  "images dragging_gallery = [''image1.jpg'', ''image2.jpg'']"
  "options dragging_gallery = readme_options"
  "startX dragging_gallery = 100"
  "startRotation dragging_gallery = 0"
  "frames dragging_gallery = []"
  "handles dragging_gallery = 1"
  by (simp_all add: dragging_gallery_def run_defs)

lemma flicking_gallery_fields:
  "rotationDegrees flicking_gallery = 3 / 20"
  "\<not> isDragging flicking_gallery"
  "currentVelocity flicking_gallery = 75 / 736"
  "galleryTrack flicking_gallery \<noteq> None"
  "images flicking_gallery = [''image1.jpg'', ''image2.jpg'']"
  "options flicking_gallery = readme_options"
  "frames flicking_gallery = [2]"
  by (simp_all add: flicking_gallery_def run_defs)




lemma constructor_readme: "constructor 1024 readme_options = Done readme_gallery"
proof -
  obtain g where "constructor 1024 readme_options = Done g"
    using constructor_Done by blast
  then show ?thesis
    by (simp add: readme_gallery_def after_def)
qed

lemma reachable_readme: "reachable readme_gallery"
  unfolding readme_gallery_def by (rule reachable_after_constructor)



subsection \<open>Single handlers\<close>

lemma updateTransform_fields:
  "rotationDegrees (updateTransform g) = rotationDegrees g"
  "currentVelocity (updateTransform g) = currentVelocity g"
  "frames (updateTransform g) = frames g"
  by (simp_all add: updateTransform_def split: option.splits)


lemma animate_continues:
  assumes "flickMinVelocity (options g) < \<bar>fl64 (currentVelocity g * flickDecay (options g))\<bar>"
  shows "animate g =
     Done ((updateTransform (g\<lparr>rotationDegrees := rotationDegrees g + currentVelocity g\<rparr>))
       \<lparr>currentVelocity := fl64 (currentVelocity g * flickDecay (options g)),
        handles := Suc (handles g),
        frames := frames g @ [Suc (handles g)],
        animationFrameId := Some (Suc (handles g))\<rparr>)"
  using assms
  by (cases "galleryTrack g")
    (simp_all add: animate_def updateTransform_def requestAnimationFrame_def Let_def)

lemma animate_ends:
  assumes "\<not> flickMinVelocity (options g) < \<bar>fl64 (currentVelocity g * flickDecay (options g))\<bar>"
    and "galleryTrack g \<noteq> None"
  shows "\<exists>g'. animate g = Done g'
           \<and> rotationDegrees g' = targetRotation (rotationDegrees g + currentVelocity g) (length (images g))
           \<and> frames g' = frames g
           \<and> images g' = images g
           \<and> galleryTrack g' \<noteq> None
           \<and> currentVelocity g' = fl64 (currentVelocity g * flickDecay (options g))
           \<and> options g' = options g"
  using assms
  by (auto simp: animate_def snapToNearestFace_def startAutoplay_def updateTransform_def
      onTrack_def andThen_def setTimeout_def setInterval_def Let_def)

lemma animate_velocity:
  "currentVelocity (after (animate g)) = fl64 (currentVelocity g * flickDecay (options g))"
  by (auto simp: animate_def snapToNearestFace_def startAutoplay_def updateTransform_def
      onTrack_def andThen_def after_def setTimeout_def setInterval_def
      requestAnimationFrame_def Let_def split: option.splits)

lemma animate_ends_frames:
  assumes "\<not> flickMinVelocity (options g) < \<bar>fl64 (currentVelocity g * flickDecay (options g))\<bar>"
  shows "frames (after (animate g)) = frames g"
  using assms
  by (auto simp: animate_def snapToNearestFace_def startAutoplay_def updateTransform_def
      onTrack_def andThen_def after_def setTimeout_def setInterval_def Let_def
      split: option.splits)




text \<open>
  Where the event has a position, a move during a drag sets the rotation from that
  position and from what pointer-down recorded, and keeps what pointer-down recorded.
\<close>

lemma handlePointerMove_rotation:
  assumes "isDragging g" and "eventX e = Inr x"
  shows "\<exists>g'. handlePointerMove e now g = Done g'
           \<and> rotationDegrees g' = startRotation g + (x - startX g) * dragFactor (options g)
           \<and> startX g' = startX g \<and> startRotation g' = startRotation g"
  using assms
  by (cases "galleryTrack g") (auto simp: handlePointerMove_def updateTransform_def Let_def)

lemma handlePointerDown_records:
  assumes "button e = 0 \<or> touches e \<noteq> None" and "eventX e = Inr x"
  shows "startX (after (handlePointerDown e now g)) = x
     \<and> startRotation (after (handlePointerDown e now g)) = rotationDegrees g
     \<and> isDragging (after (handlePointerDown e now g))"
  using assms
  by (auto simp: handlePointerDown_def stopAutoplay_def cancelFlickAnimation_def onTrack_def
      after_def timer_defs Let_def split: option.splits)

text \<open>A pointer event at position 0 has no position for the handlers.\<close>

lemma handlePointerMove_throws:
  assumes "isDragging g" and "clientX e = 0" and "touches e = None"
  shows "handlePointerMove e now g = Threw TypeError g"
  using assms by (simp add: handlePointerMove_def eventX_def)

lemma handlePointerDown_throws:
  assumes "button e = 0" and "clientX e = 0" and "touches e = None"
  shows "handlePointerDown e now g = Threw TypeError (g\<lparr>isDragging := True\<rparr>)"
  using assms by (simp add: handlePointerDown_def eventX_def Let_def)

subsection \<open>The flick loop\<close>






subsection \<open>The caller's image list\<close>

lemma dispatch_withInput:
  "dispatch ev (withInput imgs out g) =
     (case dispatch ev g of
        Done g' \<Rightarrow> Done (withInput imgs out g')
      | Threw err g' \<Rightarrow> Threw err (withInput imgs out g'))"
  by (cases ev) (auto simp: withInput_def dispatch_def handler_defs timer_defs Let_def
      split: option.splits sum.splits prod.splits if_splits)

lemma after_dispatch_withInput:
  "after (dispatch ev (withInput imgs out g)) = withInput imgs out (after (dispatch ev g))"
  by (simp add: dispatch_withInput after_def split: outcome.splits)

lemma run_withInput: "run evs (withInput imgs out g) = withInput imgs out (run evs g)"
  by (induction evs arbitrary: g) (simp_all add: after_dispatch_withInput)

lemma constructor_empty_images:
  assumes "options_images opts = []"
  shows "constructor w opts =
     Done (withInput [] [no_images_warning]
       (after (constructor w (opts\<lparr>options_images := [placeholder_image]\<rparr>))))"
  using assms
  by (simp add: withInput_def constructor_defs handler_defs timer_defs truthy_def Let_def)

section \<open>The statements of the specification\<close>

subsection \<open>Snapping\<close>




subsection \<open>Dragging\<close>

text \<open>
  C2 at a pointer-move whose \<open>clientX\<close> is 0, the left edge of the viewport, during the
  drag of \<open>dragging_gallery\<close> (pointer down at 100, rotation 0 at that time): the handler
  throws a \<open>TypeError\<close> before it writes anything, so the rotation stays at \<open>1 / 2\<close>, where
  the position of the pointer asks for \<open>0 + (0 - 100) * 0.05 = - 5\<close>.
\<close>

theorem pointer_move_at_zero_throws:
  "isDragging dragging_gallery
   \<and> clientX (example_event 0) = 0
   \<and> dispatch (PointerMove (example_event 0) 32) dragging_gallery
       = Threw TypeError dragging_gallery
   \<and> rotationDegrees (after (dispatch (PointerMove (example_event 0) 32) dragging_gallery)) = 1 / 2
   \<and> startRotation dragging_gallery
        + (clientX (example_event 0) - startX dragging_gallery) * dragFactor (options dragging_gallery)
       = - 5"
  using handlePointerMove_throws [of dragging_gallery "example_event 0" 32]
  by (simp add: dispatch_def after_def dragging_gallery_fields readme_options_fields
      example_event_def)

subsection \<open>The flick\<close>




text \<open>
  C4: a frame of the flick adds \<open>currentVelocity\<close> to \<open>rotationDegrees\<close>, shows the new
  rotation, and then multiplies \<open>currentVelocity\<close> by \<open>flickDecay\<close>, the product being
  the double that the multiplication yields. If the decayed
  velocity is above \<open>flickMinVelocity\<close> in absolute value, the frame requests exactly one
  more frame and changes nothing else; if it is not, no frame is requested and the snap
  runs on the advanced rotation.
\<close>

theorem animate_frame:
  "currentVelocity (after (animate g)) = fl64 (currentVelocity g * flickDecay (options g))
   \<and> (flickMinVelocity (options g) < \<bar>fl64 (currentVelocity g * flickDecay (options g))\<bar> \<longrightarrow>
        animate g =
          Done ((updateTransform (g\<lparr>rotationDegrees := rotationDegrees g + currentVelocity g\<rparr>))
            \<lparr>currentVelocity := fl64 (currentVelocity g * flickDecay (options g)),
             handles := Suc (handles g),
             frames := frames g @ [Suc (handles g)],
             animationFrameId := Some (Suc (handles g))\<rparr>)
        \<and> rotationDegrees (after (animate g)) = rotationDegrees g + currentVelocity g
        \<and> frames (after (animate g)) = frames g @ [Suc (handles g)])
   \<and> (\<not> flickMinVelocity (options g) < \<bar>fl64 (currentVelocity g * flickDecay (options g))\<bar> \<longrightarrow>
        frames (after (animate g)) = frames g
        \<and> (galleryTrack g \<noteq> None \<longrightarrow>
             rotationDegrees (after (animate g)) =
               targetRotation (rotationDegrees g + currentVelocity g) (length (images g))))"
proof -
  have "rotationDegrees (after (animate g)) = rotationDegrees g + currentVelocity g
        \<and> frames (after (animate g)) = frames g @ [Suc (handles g)]"
    if "flickMinVelocity (options g) < \<bar>fl64 (currentVelocity g * flickDecay (options g))\<bar>"
    using animate_continues [OF that]
    by (cases "galleryTrack g") (simp_all add: after_def updateTransform_def)
  moreover have "rotationDegrees (after (animate g)) =
      targetRotation (rotationDegrees g + currentVelocity g) (length (images g))"
    if "\<not> flickMinVelocity (options g) < \<bar>fl64 (currentVelocity g * flickDecay (options g))\<bar>"
      and "galleryTrack g \<noteq> None"
    using animate_ends [OF that] by (auto simp: after_def)
  ultimately show ?thesis
    using animate_velocity animate_continues animate_ends_frames by blast
qed

theorem animate_frame_witness:
  "flickMinVelocity (options dragging_gallery)
     < \<bar>fl64 (currentVelocity dragging_gallery * flickDecay (options dragging_gallery))\<bar>
   \<and> currentVelocity (after (animate dragging_gallery)) = 115 / 4
   \<and> rotationDegrees (after (animate dragging_gallery)) = 127 / 4
   \<and> frames (after (animate dragging_gallery)) = [2]
   \<and> \<not> flickMinVelocity (options flicking_gallery)
     < \<bar>fl64 (currentVelocity flicking_gallery * flickDecay (options flicking_gallery))\<bar>
   \<and> galleryTrack flicking_gallery \<noteq> None
   \<and> currentVelocity (after (animate flicking_gallery)) = 3 / 32
   \<and> frames (after (animate flicking_gallery)) = frames flicking_gallery
   \<and> rotationDegrees (after (animate flicking_gallery)) = 0"
  using animate_frame [of dragging_gallery] animate_frame [of flicking_gallery]
  by (simp add: dragging_gallery_fields flicking_gallery_fields readme_options_fields
      targetRotation_example fl64_example after_def updateTransform_fields)

subsection \<open>Autoplay\<close>

text \<open>
  C5: the callback of an active interval ends normally, lowers \<open>rotationDegrees\<close> by
  \<open>360 / images.length\<close>, sets the transform of the track (if there is one) to the new
  rotation and changes nothing else. In every reachable state each active interval has
  the period \<open>autoplayIntervalMs\<close> of the options.
\<close>

theorem autoplay_tick:
  "(h \<in> fst ` set (intervals g) \<longrightarrow>
      dispatch (IntervalTick h) g =
        Done (g\<lparr>rotationDegrees := rotationDegrees g - 360 / real (length (images g)),
                galleryTrack := map_option
                  (\<lambda>t. t\<lparr>style_transform :=
                           RotateY (rotationDegrees g - 360 / real (length (images g)))\<rparr>)
                  (galleryTrack g)\<rparr>))
   \<and> (reachable g \<longrightarrow> (\<forall>p \<in> set (intervals g). snd p = autoplayIntervalMs (options g)))"
proof -
  have "\<forall>p \<in> set (intervals g). snd p = autoplayIntervalMs (options g)" if "reachable g"
    using reachable_one_interval [OF that]
    by (auto simp: one_interval_def split: option.splits)
  moreover have "dispatch (IntervalTick h) g =
        Done (g\<lparr>rotationDegrees := rotationDegrees g - 360 / real (length (images g)),
                galleryTrack := map_option
                  (\<lambda>t. t\<lparr>style_transform :=
                           RotateY (rotationDegrees g - 360 / real (length (images g)))\<rparr>)
                  (galleryTrack g)\<rparr>)" if "h \<in> fst ` set (intervals g)"
    using that
    by (cases "galleryTrack g") (simp_all add: dispatch_def autoplayTick_def updateTransform_def Let_def)
  ultimately show ?thesis
    by blast
qed

theorem autoplay_tick_witness:
  "1 \<in> fst ` set (intervals readme_gallery)
   \<and> reachable readme_gallery
   \<and> rotationDegrees (after (dispatch (IntervalTick 1) readme_gallery)) = - 180
   \<and> map snd (intervals readme_gallery) = [autoplayIntervalMs (options readme_gallery)]"
  using autoplay_tick [of 1 readme_gallery] reachable_readme
  by (simp add: readme_gallery_fields after_def readme_options_def default_options_def)

text \<open>
  C9: \<^verbatim>\<open>startAutoplay\<close> on a gallery whose \<open>autoplayIntervalId\<close> is set returns at once
  and leaves the state as it was. In a reachable state a non-null \<open>autoplayIntervalId\<close>
  is such a handle, and at most one interval is active, before and after
  \<^verbatim>\<open>startAutoplay\<close>.
\<close>

theorem startAutoplay_idempotent:
  "(truthy (autoplayIntervalId g) \<longrightarrow> startAutoplay g = Done g)
   \<and> (reachable g \<longrightarrow>
        (autoplayIntervalId g \<noteq> None \<longrightarrow> startAutoplay g = Done g)
        \<and> length (intervals g) \<le> 1
        \<and> length (intervals (after (startAutoplay g))) \<le> 1)"
proof -
  have a: "startAutoplay g' = Done g'" if "truthy (autoplayIntervalId g')" for g'
    using that by (simp add: startAutoplay_def)
  have b: "truthy (autoplayIntervalId g)" "length (intervals g) \<le> 1"
    if "reachable g" "autoplayIntervalId g \<noteq> None"
    using reachable_one_interval [OF that(1)] that(2)
    by (auto simp: one_interval_def truthy_def split: option.splits)
  have c: "length (intervals g) \<le> 1" if "reachable g"
    using reachable_one_interval [OF that]
    by (auto simp: one_interval_def split: option.splits)
  have d: "length (intervals (after (startAutoplay g))) \<le> 1" if "reachable g"
    using reachable_one_interval [OF that] reachable_track [OF that]
    by (auto simp: one_interval_def truthy_def startAutoplay_def onTrack_def andThen_def
        after_def setInterval_def Let_def split: option.splits)
  show ?thesis
    using a b c d by blast
qed

theorem startAutoplay_idempotent_witness:
  "truthy (autoplayIntervalId readme_gallery)
   \<and> reachable readme_gallery
   \<and> autoplayIntervalId readme_gallery \<noteq> None
   \<and> startAutoplay readme_gallery = Done readme_gallery
   \<and> length (intervals readme_gallery) \<le> 1
   \<and> length (intervals (after (startAutoplay readme_gallery))) \<le> 1"
  using startAutoplay_idempotent [of readme_gallery] reachable_readme
  by (simp add: readme_gallery_fields truthy_def after_def)

subsection \<open>The image list\<close>

text \<open>
  C6: with an empty image list the constructor ends normally, logs the warning and takes
  the single placeholder image. The gallery it returns is the one the constructor
  returns for the list that holds just the placeholder, but for the caller's list in the
  options and the console, and that stays so after every sequence of events.
\<close>

theorem empty_images_placeholder:
  assumes "options_images opts = []"
  shows "\<exists>g. constructor innerWidth opts = Done g
           \<and> images g = [placeholder_image]
           \<and> console g = [no_images_warning]
           \<and> g = withInput [] [no_images_warning]
                   (after (constructor innerWidth (opts\<lparr>options_images := [placeholder_image]\<rparr>)))
           \<and> run evs g = withInput [] [no_images_warning]
                   (run evs (after (constructor innerWidth (opts\<lparr>options_images := [placeholder_image]\<rparr>))))"
proof -
  let ?one = "after (constructor innerWidth (opts\<lparr>options_images := [placeholder_image]\<rparr>))"
  let ?g = "withInput [] [no_images_warning] ?one"
  have c: "constructor innerWidth opts = Done ?g"
    using assms by (rule constructor_empty_images)
  have "images ?g = [placeholder_image]"
    using constructor_images [OF c] assms by simp
  moreover have "console ?g = [no_images_warning]"
    by (simp add: withInput_def)
  moreover have "run evs ?g = withInput [] [no_images_warning] (run evs ?one)"
    by (rule run_withInput)
  ultimately show ?thesis
    using c by blast
qed

theorem empty_images_placeholder_witness:
  "options_images default_options = []
   \<and> (\<exists>g. constructor 1024 default_options = Done g
           \<and> images g = [placeholder_image]
           \<and> console g = [no_images_warning]
           \<and> g = withInput [] [no_images_warning]
                   (after (constructor 1024 (default_options\<lparr>options_images := [placeholder_image]\<rparr>)))
           \<and> run [PointerDown (example_event 100) 0, PointerUp (example_event 100)] g =
               withInput [] [no_images_warning]
                 (run [PointerDown (example_event 100) 0, PointerUp (example_event 100)]
                   (after (constructor 1024 (default_options\<lparr>options_images := [placeholder_image]\<rparr>)))))"
proof -
  have e: "options_images default_options = []"
    by (simp add: default_options_def)
  show ?thesis
    using e empty_images_placeholder
      [OF e, of 1024 "[PointerDown (example_event 100) 0, PointerUp (example_event 100)]"]
    by blast
qed

text \<open>
  C8: no handler and no callback changes \<open>images\<close>; the constructor leaves at least one
  image; so in every reachable state \<open>images.length\<close> is at least 1, and the divisor
  \<open>images.length\<close> of \<^verbatim>\<open>360 / this.images.length\<close> and of \<^verbatim>\<open>Math.PI / this.images.length\<close>
  is not zero.
\<close>

theorem images_never_empty:
  "images (after (dispatch ev g)) = images g
   \<and> (constructor innerWidth opts = Done g \<longrightarrow> 1 \<le> length (images g))
   \<and> (reachable g \<longrightarrow> 1 \<le> length (images g) \<and> real (length (images g)) \<noteq> 0)"
proof -
  have r: "1 \<le> length (images g') \<and> real (length (images g')) \<noteq> 0" if "reachable g'" for g'
    using reachable_images [OF that] by (cases "images g'") auto
  have c: "1 \<le> length (images g)" if "constructor innerWidth opts = Done g"
    using r [OF reachable.constructed [OF that]] by simp
  show ?thesis
    using r c by (simp add: images_dispatch)
qed

theorem images_never_empty_witness:
  "images (after (dispatch (IntervalTick 1) readme_gallery)) = images readme_gallery
   \<and> constructor 1024 readme_options = Done readme_gallery
   \<and> reachable readme_gallery
   \<and> 1 \<le> length (images readme_gallery)
   \<and> real (length (images readme_gallery)) \<noteq> 0"
  using images_never_empty [of "IntervalTick 1" readme_gallery 1024 readme_options]
    constructor_readme reachable_readme
  by simp

subsection \<open>The transform\<close>

text \<open>
  C7: \<^verbatim>\<open>updateTransform\<close> sets the transform of the track to \<open>rotateY\<close> of the current
  \<open>rotationDegrees\<close> and nothing else where the track exists, and changes nothing where
  it does not. Every handler that writes the rotation calls it afterwards: in every
  reachable state, and after every event from there, the transform of the track is the
  one of the rotation held.
\<close>

theorem updateTransform_applies_rotation:
  "(galleryTrack g = Some t \<longrightarrow>
      updateTransform g = g\<lparr>galleryTrack := Some (t\<lparr>style_transform := RotateY (rotationDegrees g)\<rparr>)\<rparr>)
   \<and> (galleryTrack g = None \<longrightarrow> updateTransform g = g)
   \<and> (reachable g \<longrightarrow> synced g \<and> synced (after (dispatch ev g)))"
  by (auto simp: updateTransform_def dest: reachable_synced synced_dispatch)

theorem updateTransform_applies_rotation_witness:
  "galleryTrack (readme_gallery\<lparr>rotationDegrees := 90\<rparr>) = Some (the (galleryTrack readme_gallery))
   \<and> updateTransform (readme_gallery\<lparr>rotationDegrees := 90\<rparr>) =
       readme_gallery\<lparr>rotationDegrees := 90,
         galleryTrack := Some ((the (galleryTrack readme_gallery))\<lparr>style_transform := RotateY 90\<rparr>)\<rparr>
   \<and> galleryTrack (readme_gallery\<lparr>galleryTrack := None\<rparr>) = None
   \<and> updateTransform (readme_gallery\<lparr>galleryTrack := None\<rparr>) = readme_gallery\<lparr>galleryTrack := None\<rparr>
   \<and> reachable readme_gallery
   \<and> synced readme_gallery
   \<and> synced (after (dispatch (IntervalTick 1) readme_gallery))"
proof -
  have t: "galleryTrack (readme_gallery\<lparr>rotationDegrees := 90\<rparr>) = Some (the (galleryTrack readme_gallery))"
    using readme_gallery_fields(8) by auto
  show ?thesis
    using reachable_readme t
      updateTransform_applies_rotation
        [of "readme_gallery\<lparr>rotationDegrees := 90\<rparr>" "the (galleryTrack readme_gallery)"]
      updateTransform_applies_rotation [of "readme_gallery\<lparr>galleryTrack := None\<rparr>"]
      updateTransform_applies_rotation [of readme_gallery _ "IntervalTick 1"]
    by simp
qed

subsection \<open>Pointer events outside a drag\<close>

text \<open>
  C10: pointer events outside an active drag change nothing. A pointer-down of a
  non-primary button that carries no touches, and any pointer-move, pointer-up or
  pointer-cancel that arrives while \<open>isDragging\<close> is false, end normally and leave the
  whole state as it was: the object's fields, the track and the timers.
\<close>

theorem pointer_events_outside_drag:
  "(button e \<noteq> 0 \<and> touches e = None \<longrightarrow> dispatch (PointerDown e now) g = Done g)
   \<and> (\<not> isDragging g \<longrightarrow>
        dispatch (PointerMove e now) g = Done g
        \<and> dispatch (PointerUp e) g = Done g
        \<and> dispatch (PointerCancel e) g = Done g)"
  by (simp add: dispatch_def handlePointerDown_def handlePointerMove_def handlePointerUp_def)

theorem pointer_events_outside_drag_witness:
  "button (\<lparr>button = 2, clientX = 100, touches = None, pointerId = 1\<rparr>) \<noteq> 0
   \<and> touches (\<lparr>button = 2, clientX = 100, touches = None, pointerId = 1\<rparr>) = None
   \<and> \<not> isDragging readme_gallery
   \<and> dispatch (PointerDown \<lparr>button = 2, clientX = 100, touches = None, pointerId = 1\<rparr> 5)
        readme_gallery = Done readme_gallery
   \<and> dispatch (PointerMove \<lparr>button = 2, clientX = 100, touches = None, pointerId = 1\<rparr> 5)
        readme_gallery = Done readme_gallery
   \<and> dispatch (PointerUp \<lparr>button = 2, clientX = 100, touches = None, pointerId = 1\<rparr>)
        readme_gallery = Done readme_gallery
   \<and> dispatch (PointerCancel \<lparr>button = 2, clientX = 100, touches = None, pointerId = 1\<rparr>)
        readme_gallery = Done readme_gallery"
  using pointer_events_outside_drag
      [of "\<lparr>button = 2, clientX = 100, touches = None, pointerId = 1\<rparr>" 5 readme_gallery]
  by (simp add: readme_gallery_fields)

end
